theory Spec2Isabelle
  imports Main "HOL-Library.Multiset"
begin

section \<open>Python values, exceptions and effects\<close>

text \<open>
  The module \<open>swat/utils/testing.py\<close> reads the process environment, probes the file
  system and runs a Lua interpreter. Everything outside the module is gathered in a record
  \<open>world\<close>; every function of the module that touches it returns, next to its result, the
  list of library calls it made, in order. An exception is the \<open>Inl\<close> side of the result,
  and a computation that never returns is \<open>None\<close>. The library is that of Python 3 on a
  POSIX system, and texts are ASCII.
\<close>

datatype error =
    ValueError | TypeError | KeyError | AttributeError | NameError
  | SyntaxError | OSError | LuaError | AssertionError

datatype pyval = PNone | PBool bool | PInt int | PStr string

datatype kind = Reg string | Dir

record node =
  st_dev :: nat
  st_ino :: nat
  kind :: kind

datatype call =
    IsFile string | Exists string | SameFile string string | GetCwd | GetPwUid
  | GetPwNam string | ReadFile string | LuaDoFile string | LuaCommand string

record world =
  environ :: "string \<rightharpoonup> string"
  getcwd :: "string option"
  getpwuid :: "string option"
  getpwnam :: "string \<rightharpoonup> string"
  stat :: "string \<rightharpoonup> node"
  lupa :: "(string \<Rightarrow> (string \<rightharpoonup> pyval) option) option"
  lua_command :: "string \<Rightarrow> string option"
  python_eval :: "string \<Rightarrow> error + pyval"

text \<open>
  \<^item> \<open>environ\<close> is \<open>os.environ\<close>.
  \<^item> \<open>getcwd\<close> is \<open>os.getcwd()\<close>; \<open>None\<close> when it raises (the directory was removed).
  \<^item> \<open>getpwuid\<close> is \<open>pwd.getpwuid(os.getuid()).pw_dir\<close> and \<open>getpwnam\<close> is
    \<open>pwd.getpwnam(name).pw_dir\<close>; \<open>None\<close> is their \<open>KeyError\<close>.
  \<^item> \<open>stat\<close> is \<open>os.stat\<close> on a path as the program writes it (the system resolves a
    relative path); \<open>None\<close> is its \<open>OSError\<close>. A regular file carries its text;
    \<open>Dir\<close> stands for a directory and for anything else that is not a regular file.
  \<^item> \<open>lupa\<close> is \<open>None\<close> when \<open>from lupa import LuaRuntime\<close> raises \<open>ImportError\<close>;
    otherwise it maps a path to the globals of a fresh runtime after \<open>dofile(path)\<close>, or
    to \<open>None\<close> when the runtime raises.
  \<^item> \<open>lua_command\<close> is the output of the command \<open>lua - path\<close> fed with the driver
    script; \<open>None\<close> when \<open>subprocess.check_output\<close> raises one of the exceptions the
    module catches.
  \<^item> \<open>python_eval\<close> is \<open>eval\<close> on a text that is none of the literals of \<open>py_eval\<close> below.
\<close>

type_synonym 'a io = "(call list \<times> (error + 'a)) option"

definition io_return :: "'a \<Rightarrow> 'a io" where
  "io_return x = Some ([], Inr x)"

definition io_raise :: "error \<Rightarrow> 'a io" where
  "io_raise e = Some ([], Inl e)"

definition io_call :: "call \<Rightarrow> error + 'a \<Rightarrow> 'a io" where
  \<comment> \<open>a library call and its outcome\<close>
  "io_call c r = Some ([c], r)"

definition io_bind :: "'a io \<Rightarrow> ('a \<Rightarrow> 'b io) \<Rightarrow> 'b io" where
  "io_bind m f =
     (case m of
        None \<Rightarrow> None
      | Some (t, Inl e) \<Rightarrow> Some (t, Inl e)
      | Some (t, Inr x) \<Rightarrow> (case f x of None \<Rightarrow> None | Some (t', r) \<Rightarrow> Some (t @ t', r)))"

lemma io_bind_mono [partial_function_mono]:
  assumes "\<And>x. mono_option (\<lambda>f. B f x)"
  shows "mono_option (\<lambda>f. io_bind m (B f))"
proof (rule monotoneI)
  fix f g :: "'b \<Rightarrow> 'c option"
  assume fg: "fun_ord option_ord f g"
  have step: "option_ord (B f x) (B g x)" for x
    using assms[of x] fg by (auto dest: monotoneD)
  show "option_ord (io_bind m (B f)) (io_bind m (B g))"
  proof (cases m)
    case None
    then show ?thesis by (simp add: io_bind_def flat_ord_def)
  next
    case (Some p)
    obtain t r where p: "p = (t, r)" by (cases p)
    show ?thesis
    proof (cases r)
      case (Inl e)
      with Some p show ?thesis by (simp add: io_bind_def flat_ord_def)
    next
      case (Inr x)
      with Some p step[of x] show ?thesis
        by (auto simp: io_bind_def flat_ord_def split: option.splits)
    qed
  qed
qed

definition environ_get :: "world \<Rightarrow> string \<Rightarrow> string \<Rightarrow> string" where
  \<comment> \<open>\<open>os.environ.get(key, default)\<close>\<close>
  "environ_get w k d = (case environ w k of None \<Rightarrow> d | Some v \<Rightarrow> v)"

definition environ_item :: "world \<Rightarrow> string \<Rightarrow> string io" where
  \<comment> \<open>\<open>os.environ[key]\<close>\<close>
  "environ_item w k = (case environ w k of None \<Rightarrow> io_raise KeyError | Some v \<Rightarrow> io_return v)"

section \<open>Strings\<close>

definition startswith :: "string \<Rightarrow> string \<Rightarrow> bool" where
  "startswith s p = (take (length p) s = p)"

fun str_in :: "string \<Rightarrow> string \<Rightarrow> bool" where
  \<comment> \<open>\<open>needle in haystack\<close>\<close>
  "str_in n [] = (n = [])"
| "str_in n (c # cs) = (startswith (c # cs) n \<or> str_in n cs)"

definition endswith :: "string \<Rightarrow> string \<Rightarrow> bool" where
  "endswith s p = startswith (rev s) (rev p)"

definition rstrip_char :: "char \<Rightarrow> string \<Rightarrow> string" where
  \<comment> \<open>\<open>s.rstrip(c)\<close> for a single character\<close>
  "rstrip_char c s = rev (dropWhile (\<lambda>x. x = c) (rev s))"

fun split_char :: "char \<Rightarrow> string \<Rightarrow> string list" where
  \<comment> \<open>\<open>s.split(c)\<close>\<close>
  "split_char c [] = [[]]"
| "split_char c (x # xs) =
     (if x = c then [] # split_char c xs
      else (case split_char c xs of [] \<Rightarrow> [[x]] | y # ys \<Rightarrow> (x # y) # ys))"

fun str_join :: "string \<Rightarrow> string list \<Rightarrow> string" where
  \<comment> \<open>\<open>sep.join(xs)\<close>\<close>
  "str_join sep [] = []"
| "str_join sep [x] = x"
| "str_join sep (x # y # ys) = x @ sep @ str_join sep (y # ys)"

definition ord :: "char \<Rightarrow> nat" where
  \<comment> \<open>\<open>ord(c)\<close>\<close>
  "ord c = of_char c"

definition is_digit :: "char \<Rightarrow> bool" where
  "is_digit c = (ord CHR ''0'' \<le> ord c \<and> ord c \<le> ord CHR ''9'')"

definition is_word :: "char \<Rightarrow> bool" where
  \<comment> \<open>the class \<open>\w\<close> on ASCII text\<close>
  "is_word c = ((ord CHR ''a'' \<le> ord c \<and> ord c \<le> ord CHR ''z'')
                \<or> (ord CHR ''A'' \<le> ord c \<and> ord c \<le> ord CHR ''Z'')
                \<or> is_digit c \<or> c = CHR ''_'')"

definition is_ascii_space :: "char \<Rightarrow> bool" where
  \<comment> \<open>the white space of \<open>bytes.strip()\<close> and of \<open>int(s)\<close>:
      space, tab, line feed, vertical tab, form feed, carriage return\<close>
  "is_ascii_space c = (c = CHR '' '' \<or> (9 \<le> ord c \<and> ord c \<le> 13))"

definition is_space :: "char \<Rightarrow> bool" where
  \<comment> \<open>the class \<open>\s\<close> on ASCII text: the above and the separators FS, GS, RS, US\<close>
  "is_space c = (is_ascii_space c \<or> (28 \<le> ord c \<and> ord c \<le> 31))"

definition strip :: "string \<Rightarrow> string" where
  \<comment> \<open>\<open>s.strip()\<close> on bytes\<close>
  "strip s = rev (dropWhile is_ascii_space (rev (dropWhile is_ascii_space s)))"

definition nl :: char where
  \<comment> \<open>the line feed\<close>
  "nl = CHR 0x0A"

subsection \<open>Conversions\<close>

fun int_digits :: "string \<Rightarrow> bool \<Rightarrow> nat \<Rightarrow> nat option" where
  \<comment> \<open>decimal digits, single underscores allowed between two digits; the flag says that
      the previous character was a digit\<close>
  "int_digits [] d acc = (if d then Some acc else None)"
| "int_digits (c # cs) d acc =
     (if is_digit c then int_digits cs True (10 * acc + (ord c - ord CHR ''0''))
      else if c = CHR ''_'' \<and> d \<and> cs \<noteq> [] \<and> is_digit (hd cs) then int_digits cs False acc
      else None)"

definition int_of_str :: "string \<Rightarrow> error + int" where
  \<comment> \<open>\<open>int(s)\<close> for a string: surrounding white space, an optional sign, decimal digits\<close>
  "int_of_str s =
     (case strip s of
        [] \<Rightarrow> Inl ValueError
      | c # cs \<Rightarrow>
          (if c = CHR ''-'' then
             (case int_digits cs False 0 of None \<Rightarrow> Inl ValueError | Some n \<Rightarrow> Inr (- int n))
           else if c = CHR ''+'' then
             (case int_digits cs False 0 of None \<Rightarrow> Inl ValueError | Some n \<Rightarrow> Inr (int n))
           else
             (case int_digits (c # cs) False 0 of None \<Rightarrow> Inl ValueError | Some n \<Rightarrow> Inr (int n))))"

fun str_of_nat :: "nat \<Rightarrow> string" where
  "str_of_nat n =
     (if n < 10 then [char_of (n + ord CHR ''0'')]
      else str_of_nat (n div 10) @ [char_of (n mod 10 + ord CHR ''0'')])"

declare str_of_nat.simps [simp del]

definition str_of_int :: "int \<Rightarrow> string" where
  "str_of_int i = (if i < 0 then CHR ''-'' # str_of_nat (nat (- i)) else str_of_nat (nat i))"

fun py_str :: "pyval \<Rightarrow> string" where
  \<comment> \<open>\<open>str(v)\<close>\<close>
  "py_str PNone = ''None''"
| "py_str (PBool b) = (if b then ''True'' else ''False'')"
| "py_str (PInt i) = str_of_int i"
| "py_str (PStr s) = s"

fun py_int :: "pyval \<Rightarrow> error + int" where
  \<comment> \<open>\<open>int(v)\<close>\<close>
  "py_int PNone = Inl TypeError"
| "py_int (PBool b) = Inr (if b then 1 else 0)"
| "py_int (PInt i) = Inr i"
| "py_int (PStr s) = int_of_str s"

fun truthy :: "pyval \<Rightarrow> bool" where
  \<comment> \<open>the truth value of \<open>v\<close> in a condition\<close>
  "truthy PNone = False"
| "truthy (PBool b) = b"
| "truthy (PInt i) = (i \<noteq> 0)"
| "truthy (PStr s) = (s \<noteq> [])"

definition all_digits :: "string \<Rightarrow> bool" where
  "all_digits s = (s \<noteq> [] \<and> list_all is_digit s)"

definition quoted :: "char \<Rightarrow> string \<Rightarrow> bool" where
  \<comment> \<open>a string literal in the quote \<open>q\<close> with no quote, backslash or line break inside\<close>
  "quoted q s =
     (2 \<le> length s \<and> hd s = q \<and> last s = q
      \<and> list_all (\<lambda>c. c \<noteq> q \<and> c \<noteq> CHR 0x5C \<and> c \<noteq> nl \<and> c \<noteq> CHR 0x0D) (butlast (tl s)))"

definition py_eval :: "world \<Rightarrow> string \<Rightarrow> error + pyval" where
  \<comment> \<open>\<open>eval(s)\<close>: the literals a configuration value is written with are evaluated here,
      a decimal integer (no leading zero), a plain string literal in either quote,
      \<open>None\<close>, \<open>True\<close>, \<open>False\<close>; any other text is left to the interpreter\<close>
  "py_eval w s =
     (if s = ''None'' then Inr PNone
      else if s = ''True'' then Inr (PBool True)
      else if s = ''False'' then Inr (PBool False)
      else if all_digits s then
        (if hd s = CHR ''0'' \<and> \<not> list_all (\<lambda>c. c = CHR ''0'') s then Inl SyntaxError
         else (case int_digits s False 0 of None \<Rightarrow> Inl SyntaxError | Some n \<Rightarrow> Inr (PInt (int n))))
      else if quoted CHR 0x22 s \<or> quoted CHR 0x27 s then Inr (PStr (butlast (tl s)))
      else python_eval w s)"

section \<open>Paths and the file system\<close>

text \<open>The functions of \<open>os.path\<close> are those of \<open>posixpath\<close>.\<close>

definition path_join :: "string \<Rightarrow> string \<Rightarrow> string" where
  \<comment> \<open>\<open>os.path.join(a, b)\<close>\<close>
  "path_join a b =
     (if startswith b ''/'' then b
      else if a = [] \<or> endswith a ''/'' then a @ b
      else a @ ''/'' @ b)"

definition dirname :: "string \<Rightarrow> string" where
  \<comment> \<open>\<open>os.path.dirname(p)\<close>: the text up to the last slash, trailing slashes removed
      unless it consists of slashes only\<close>
  "dirname p =
     (let head = rev (dropWhile (\<lambda>c. c \<noteq> CHR ''/'') (rev p))
      in if head \<noteq> [] \<and> head \<noteq> replicate (length head) CHR ''/''
         then rstrip_char CHR ''/'' head else head)"

definition norm_comp :: "nat \<Rightarrow> string list \<Rightarrow> string \<Rightarrow> string list" where
  \<comment> \<open>one round of the loop over the components in \<open>normpath\<close>\<close>
  "norm_comp initial_slashes new_comps c =
     (if c = [] \<or> c = ''.'' then new_comps
      else if c = ''..'' then
        (if (initial_slashes = 0 \<and> new_comps = []) \<or> (new_comps \<noteq> [] \<and> last new_comps = ''..'')
         then new_comps @ [c]
         else if new_comps \<noteq> [] then butlast new_comps
         else new_comps)
      else new_comps @ [c])"

definition normpath :: "string \<Rightarrow> string" where
  \<comment> \<open>\<open>os.path.normpath(path)\<close>\<close>
  "normpath path =
     (if path = [] then ''.''
      else
        let initial_slashes =
              (if startswith path ''/'' then
                 (if startswith path ''//'' \<and> \<not> startswith path ''///'' then 2 else 1)
               else 0);
            comps = foldl (norm_comp initial_slashes) [] (split_char CHR ''/'' path);
            path' = replicate initial_slashes CHR ''/'' @ str_join ''/'' comps
        in if path' = [] then ''.'' else path')"

definition isabs :: "string \<Rightarrow> bool" where
  "isabs p = startswith p ''/''"

definition abspath :: "world \<Rightarrow> string \<Rightarrow> string io" where
  \<comment> \<open>\<open>os.path.abspath(path)\<close>\<close>
  "abspath w path =
     (if isabs path then io_return (normpath path)
      else (case getcwd w of
              None \<Rightarrow> io_call GetCwd (Inl OSError)
            | Some cwd \<Rightarrow> io_call GetCwd (Inr (normpath (path_join cwd path)))))"

definition expanduser :: "world \<Rightarrow> string \<Rightarrow> string io" where
  \<comment> \<open>\<open>os.path.expanduser(path)\<close>: \<open>~\<close> is the value of \<open>HOME\<close> or, without it, the
      home of the current user; \<open>~name\<close> is the home of that user; a user the password
      database does not know leaves the path as it is\<close>
  "expanduser w path =
     (if \<not> startswith path ''~'' then io_return path
      else
        let name = takeWhile (\<lambda>c. c \<noteq> CHR ''/'') (tl path);
            rest = dropWhile (\<lambda>c. c \<noteq> CHR ''/'') (tl path);
            finish = (\<lambda>userhome. let r = rstrip_char CHR ''/'' userhome @ rest
                                  in if r = [] then ''/'' else r)
        in if name = [] then
             (case environ w ''HOME'' of
                Some userhome \<Rightarrow> io_return (finish userhome)
              | None \<Rightarrow>
                  (case getpwuid w of
                     None \<Rightarrow> io_call GetPwUid (Inr path)
                   | Some userhome \<Rightarrow> io_call GetPwUid (Inr (finish userhome))))
           else
             (case getpwnam w name of
                None \<Rightarrow> io_call (GetPwNam name) (Inr path)
              | Some userhome \<Rightarrow> io_call (GetPwNam name) (Inr (finish userhome))))"

definition is_reg :: "node \<Rightarrow> bool" where
  "is_reg n = (case kind n of Reg _ \<Rightarrow> True | Dir \<Rightarrow> False)"

definition file_at :: "world \<Rightarrow> string \<Rightarrow> bool" where
  \<comment> \<open>the path names a regular file\<close>
  "file_at w p = (case stat w p of None \<Rightarrow> False | Some n \<Rightarrow> is_reg n)"

definition present :: "world \<Rightarrow> string \<Rightarrow> bool" where
  \<comment> \<open>the path names a file or a directory\<close>
  "present w p = (case stat w p of None \<Rightarrow> False | Some n \<Rightarrow> True)"

definition isfile :: "world \<Rightarrow> string \<Rightarrow> bool io" where
  \<comment> \<open>\<open>os.path.isfile(p)\<close>\<close>
  "isfile w p = io_call (IsFile p) (Inr (file_at w p))"

definition exists_path :: "world \<Rightarrow> string \<Rightarrow> bool io" where
  \<comment> \<open>\<open>os.path.exists(p)\<close>\<close>
  "exists_path w p = io_call (Exists p) (Inr (present w p))"

definition samefile :: "world \<Rightarrow> string \<Rightarrow> string \<Rightarrow> bool io" where
  \<comment> \<open>\<open>os.path.samefile(p, q)\<close>: both paths are examined; a missing one raises\<close>
  "samefile w p q =
     io_call (SameFile p q)
      (case stat w p of
         None \<Rightarrow> Inl OSError
       | Some a \<Rightarrow>
           (case stat w q of
              None \<Rightarrow> Inl OSError
            | Some b \<Rightarrow> Inr (st_ino a = st_ino b \<and> st_dev a = st_dev b)))"

definition read_file :: "world \<Rightarrow> string \<Rightarrow> string io" where
  \<comment> \<open>\<open>open(p, 'r').read()\<close>\<close>
  "read_file w p =
     io_call (ReadFile p)
      (case stat w p of
         None \<Rightarrow> Inl OSError
       | Some n \<Rightarrow> (case kind n of Reg text \<Rightarrow> Inr text | Dir \<Rightarrow> Inl OSError))"

section \<open>Regular expressions\<close>

text \<open>
  The patterns of the module are sequences of single characters of a class, repetitions of
  a class (with a least count; greedy or lazy), the anchors \<open>\b\<close>, \<open>^\<close> and \<open>$\<close>, group
  marks and one alternation. The matcher backtracks as \<open>re\<close> does: a greedy repetition
  tries the longest run first, a lazy one the shortest, an alternation its left branch
  first. It walks the text with the previous character at hand, and records the position
  of every group mark. The flag is \<open>re.M\<close>.
\<close>

datatype rx =
    Chr "char \<Rightarrow> bool"
  | Rep "char \<Rightarrow> bool" nat bool
  | Wordb | Bol | Eol
  | GrpOpen | GrpClose
  | Alt "rx list" "rx list"

definition at_bol :: "bool \<Rightarrow> char option \<Rightarrow> bool" where
  \<comment> \<open>\<open>^\<close>: at the start, and with \<open>re.M\<close> after every line feed\<close>
  "at_bol m prev = (case prev of None \<Rightarrow> True | Some c \<Rightarrow> m \<and> c = nl)"

definition at_eol :: "bool \<Rightarrow> string \<Rightarrow> bool" where
  \<comment> \<open>\<open>$\<close>: at the end and before a final line feed, and with \<open>re.M\<close> before every line feed\<close>
  "at_eol m cs = (case cs of [] \<Rightarrow> True | c # cs' \<Rightarrow> c = nl \<and> (m \<or> cs' = []))"

definition at_wordb :: "char option \<Rightarrow> string \<Rightarrow> bool" where
  \<comment> \<open>\<open>\b\<close>: exactly one of the two neighbours is a word character\<close>
  "at_wordb prev cs =
     ((case prev of None \<Rightarrow> False | Some c \<Rightarrow> is_word c)
      \<noteq> (case cs of [] \<Rightarrow> False | c # cs' \<Rightarrow> is_word c))"

function (sequential) rx_match ::
  "bool \<Rightarrow> rx list \<Rightarrow> char option \<Rightarrow> string \<Rightarrow> nat \<Rightarrow> nat list \<Rightarrow> (nat \<times> nat list) option" where
  "rx_match m [] prev cs i ms = Some (i, ms)"
| "rx_match m (Chr p # rs) prev [] i ms = None"
| "rx_match m (Chr p # rs) prev (c # cs) i ms =
     (if p c then rx_match m rs (Some c) cs (Suc i) ms else None)"
| "rx_match m (Rep p lo greedy # rs) prev [] i ms =
     (if lo = 0 then rx_match m rs prev [] i ms else None)"
| "rx_match m (Rep p lo greedy # rs) prev (c # cs) i ms =
     (if greedy then
        (case (if p c then rx_match m (Rep p (lo - 1) greedy # rs) (Some c) cs (Suc i) ms
               else None) of
           Some r \<Rightarrow> Some r
         | None \<Rightarrow> if lo = 0 then rx_match m rs prev (c # cs) i ms else None)
      else
        (case (if lo = 0 then rx_match m rs prev (c # cs) i ms else None) of
           Some r \<Rightarrow> Some r
         | None \<Rightarrow> if p c then rx_match m (Rep p (lo - 1) greedy # rs) (Some c) cs (Suc i) ms
                   else None))"
| "rx_match m (Wordb # rs) prev cs i ms =
     (if at_wordb prev cs then rx_match m rs prev cs i ms else None)"
| "rx_match m (Bol # rs) prev cs i ms =
     (if at_bol m prev then rx_match m rs prev cs i ms else None)"
| "rx_match m (Eol # rs) prev cs i ms =
     (if at_eol m cs then rx_match m rs prev cs i ms else None)"
| "rx_match m (GrpOpen # rs) prev cs i ms = rx_match m rs prev cs i (ms @ [i])"
| "rx_match m (GrpClose # rs) prev cs i ms = rx_match m rs prev cs i (ms @ [i])"
| "rx_match m (Alt a b # rs) prev cs i ms =
     (case rx_match m (a @ rs) prev cs i ms of
        Some r \<Rightarrow> Some r
      | None \<Rightarrow> rx_match m (b @ rs) prev cs i ms)"
  by pat_completeness auto
termination
  by (relation "inv_image (less_than <*lex*> less_than)
                  (\<lambda>(m, rs, prev, cs, i, ms). (size_list size rs, length cs))") auto

fun rx_scan ::
  "bool \<Rightarrow> rx list \<Rightarrow> char option \<Rightarrow> string \<Rightarrow> nat \<Rightarrow> nat \<Rightarrow> (nat \<times> nat \<times> nat list) list" where
  \<comment> \<open>the matches from left to right, none starting before the end of the one before
      (no pattern of the module matches the empty text)\<close>
  "rx_scan m rs prev [] i r =
     (if i < r then []
      else (case rx_match m rs prev [] i [] of None \<Rightarrow> [] | Some (e, ms) \<Rightarrow> [(i, e, ms)]))"
| "rx_scan m rs prev (c # cs) i r =
     (if i < r then rx_scan m rs (Some c) cs (Suc i) r
      else (case rx_match m rs prev (c # cs) i [] of
              None \<Rightarrow> rx_scan m rs (Some c) cs (Suc i) r
            | Some (e, ms) \<Rightarrow> (i, e, ms) # rx_scan m rs (Some c) cs (Suc i) (max e (Suc i))))"

definition finditer :: "bool \<Rightarrow> rx list \<Rightarrow> string \<Rightarrow> (nat \<times> nat \<times> nat list) list" where
  "finditer m rs s = rx_scan m rs None s 0 0"

definition substr :: "string \<Rightarrow> nat \<Rightarrow> nat \<Rightarrow> string" where
  \<comment> \<open>\<open>s[b:e]\<close>\<close>
  "substr s b e = take (e - b) (drop b s)"

fun groups :: "string \<Rightarrow> nat list \<Rightarrow> string list" where
  "groups s (b # e # ms) = substr s b e # groups s ms"
| "groups s ms = []"

definition findall :: "bool \<Rightarrow> rx list \<Rightarrow> string \<Rightarrow> string list list" where
  \<comment> \<open>\<open>re.findall\<close>: the groups of every match\<close>
  "findall m rs s = map (\<lambda>(b, e, ms). groups s ms) (finditer m rs s)"

fun splice :: "string \<Rightarrow> nat \<Rightarrow> (nat \<times> nat \<times> nat list) list \<Rightarrow> string \<Rightarrow> string" where
  "splice s p [] repl = drop p s"
| "splice s p ((b, e, ms) # xs) repl = substr s p b @ repl @ splice s e xs repl"

definition re_sub :: "bool \<Rightarrow> rx list \<Rightarrow> string \<Rightarrow> string \<Rightarrow> string" where
  \<comment> \<open>\<open>re.sub\<close> with a constant replacement\<close>
  "re_sub m rs repl s = splice s 0 (finditer m rs s) repl"

definition lit :: "char \<Rightarrow> rx" where
  "lit c = Chr (\<lambda>x. x = c)"

definition dot :: "char \<Rightarrow> bool" where
  \<comment> \<open>\<open>.\<close>: any character but the line feed\<close>
  "dot c = (c \<noteq> nl)"

definition comment_rx :: "rx list" where
  \<comment> \<open>\<^verbatim>\<open>\-\-.*?$\<close>\<close>
  "comment_rx = [lit CHR ''-'', lit CHR ''-'', Rep dot 0 False, Eol]"

definition assign_rx :: "rx list" where
  \<comment> \<open>\<^verbatim>\<open>\b(cas\w+)\s*=\s*(\S+)(?:\s+|\s*$)\<close>\<close>
  "assign_rx =
     [Wordb, GrpOpen, lit CHR ''c'', lit CHR ''a'', lit CHR ''s'', Rep is_word 1 True, GrpClose,
      Rep is_space 0 True, lit CHR ''='', Rep is_space 0 True,
      GrpOpen, Rep (\<lambda>c. \<not> is_space c) 1 True, GrpClose,
      Alt [Rep is_space 1 True] [Rep is_space 0 True, Eol]]"

definition line_rx :: "rx list" where
  \<comment> \<open>\<^verbatim>\<open>^\s*(cas\w+)\s+(.+?)\s*$\<close>\<close>
  "line_rx =
     [Bol, Rep is_space 0 True,
      GrpOpen, lit CHR ''c'', lit CHR ''a'', lit CHR ''s'', Rep is_word 1 True, GrpClose,
      Rep is_space 1 True,
      GrpOpen, Rep dot 1 False, GrpClose,
      Rep is_space 0 True, Eol]"

section \<open>Library names and credentials\<close>

definition get_casout_lib :: "world \<Rightarrow> string \<Rightarrow> string" where
  "get_casout_lib w server_type =
     (let out_lib = environ_get w ''CASOUTLIB'' ''CASUSER'';
          out_lib = (if str_in ''.mpp'' server_type
                     then environ_get w ''CASMPPOUTLIB'' out_lib else out_lib)
      in out_lib)"

definition get_cas_data_lib :: "world \<Rightarrow> string \<Rightarrow> string" where
  "get_cas_data_lib w server_type =
     (let data_lib = environ_get w ''CASDATALIB'' ''CASTestTmp'';
          data_lib = (if str_in ''.mpp'' server_type
                      then environ_get w ''CASMPPDATALIB'' ''HPS'' else data_lib)
      in data_lib)"

definition get_user_pass :: "world \<Rightarrow> (string option \<times> string option) io" where
  "get_user_pass w =
     io_bind (if ''CASUSER'' \<in> dom (environ w)
              then io_bind (environ_item w ''CASUSER'') (\<lambda>v. io_return (Some v))
              else io_return None) (\<lambda>username.
     io_bind (if ''CASPASSWORD'' \<in> dom (environ w)
              then io_bind (environ_item w ''CASPASSWORD'') (\<lambda>v. io_return (Some v))
              else io_return None) (\<lambda>password.
     io_return (username, password)))"

section \<open>The .casrc reader\<close>

datatype globals =
    LuaTable "string \<rightharpoonup> pyval"
  | LuaGlobals "string \<rightharpoonup> pyval"

text \<open>
  \<open>lg\<close> is either the table \<open>lua.globals()\<close> of the embedded runtime, where reading a
  name that was never assigned yields \<open>nil\<close>, that is \<open>None\<close>, or an instance of the empty
  class \<open>LuaGlobals\<close> filled by \<open>setattr\<close>, where reading such a name raises.
\<close>

definition getattr :: "globals \<Rightarrow> string \<Rightarrow> error + pyval" where
  \<comment> \<open>\<open>lg.name\<close>\<close>
  "getattr lg name =
     (case lg of
        LuaTable t \<Rightarrow> (case t name of None \<Rightarrow> Inr PNone | Some v \<Rightarrow> Inr v)
      | LuaGlobals d \<Rightarrow> (case d name of None \<Rightarrow> Inl AttributeError | Some v \<Rightarrow> Inr v))"

fun set_lines :: "(string \<rightharpoonup> pyval) \<Rightarrow> string list list \<Rightarrow> error + (string \<rightharpoonup> pyval)" where
  \<comment> \<open>\<open>for name, value in ...: setattr(lg, name, value)\<close>\<close>
  "set_lines d [] = Inr d"
| "set_lines d ([name, val] # xs) = set_lines (d(name \<mapsto> PStr val)) xs"
| "set_lines d (x # xs) = Inl ValueError"

fun set_evals :: "world \<Rightarrow> (string \<rightharpoonup> pyval) \<Rightarrow> string list list \<Rightarrow> error + (string \<rightharpoonup> pyval)" where
  \<comment> \<open>\<open>for name, value in ...: setattr(lg, name, eval(value))\<close>\<close>
  "set_evals w d [] = Inr d"
| "set_evals w d ([name, val] # xs) =
     (case py_eval w val of Inl e \<Rightarrow> Inl e | Inr v \<Rightarrow> set_evals w (d(name \<mapsto> v)) xs)"
| "set_evals w d (x # xs) = Inl ValueError"

definition scrape :: "world \<Rightarrow> string \<Rightarrow> globals io" where
  \<comment> \<open>the branch \<open># Try to parse manually\<close>\<close>
  "scrape w path =
     io_bind (read_file w path) (\<lambda>text.
       let config = re_sub True comment_rx '' '' text
       in (case set_evals w Map.empty (findall False assign_rx config) of
             Inl e \<Rightarrow> io_raise e
           | Inr d \<Rightarrow> io_return (LuaGlobals d)))"

definition load_globals :: "world \<Rightarrow> string \<Rightarrow> globals io" where
  \<comment> \<open>the first \<open>try\<close> statement of \<open>_read_casrc\<close>: the embedded runtime; without it the
      \<open>lua\<close> command; without output from it the manual scrape\<close>
  "load_globals w path =
     (case lupa w of
        Some dofile \<Rightarrow>
          (case dofile path of
             None \<Rightarrow> io_call (LuaDoFile path) (Inl LuaError)
           | Some t \<Rightarrow> io_call (LuaDoFile path) (Inr (LuaTable t)))
      | None \<Rightarrow>
          io_bind (io_call (LuaCommand path)
                     (Inr (case lua_command w path of None \<Rightarrow> None | Some out \<Rightarrow> Some (strip out))))
            (\<lambda>config.
               (case config of
                  None \<Rightarrow> scrape w path
                | Some c \<Rightarrow>
                    if c \<noteq> [] then
                      (case set_lines Map.empty (findall True line_rx c) of
                         Inl e \<Rightarrow> io_raise e
                       | Inr d \<Rightarrow> io_return (LuaGlobals d))
                    else scrape w path)))"

definition fatal :: "string \<Rightarrow> 'a io" where
  \<comment> \<open>the handlers \<open>sys.sterr.write(msg); sys.exit(1)\<close>: the module does not import
      \<open>sys\<close> (only the function \<open>runtests\<close> does, locally), so the first statement of a
      handler raises \<open>NameError\<close>; nothing is written and \<open>sys.exit\<close> is not reached\<close>
  "fatal msg = io_raise NameError"

definition read_casrc :: "world \<Rightarrow> string \<Rightarrow> (string option \<times> int option \<times> string option) io" where
  \<comment> \<open>\<open>_read_casrc(path)\<close>\<close>
  "read_casrc w path =
     io_bind (isfile w path) (\<lambda>is_file.
       if \<not> is_file then io_return (None, None, None)
       else
         io_bind (load_globals w path) (\<lambda>lg.
         io_bind (case getattr lg ''cashost'' of
                    Inl e \<Rightarrow> fatal ''ERROR: Could not access cashost setting''
                  | Inr v \<Rightarrow> io_return (py_str v)) (\<lambda>cashost.
         io_bind (case getattr lg ''casport'' of
                    Inl e \<Rightarrow> fatal ''ERROR: Could not access casport setting''
                  | Inr v \<Rightarrow>
                      (case py_int v of
                         Inl e \<Rightarrow> fatal ''ERROR: Could not access casport setting''
                       | Inr n \<Rightarrow> io_return n)) (\<lambda>casport.
         let casprotocol =
               (case getattr lg ''casprotocol'' of
                  Inl e \<Rightarrow> None
                | Inr v \<Rightarrow> if truthy v then Some (py_str v) else None)
         in io_return (Some cashost, Some casport, casprotocol)))))"

section \<open>Host, port and protocol\<close>

definition rcname :: string where
  "rcname = ''.casrc''"

partial_function (option) walk :: "world \<Rightarrow> string \<Rightarrow> string \<Rightarrow> unit io" where
  \<comment> \<open>the \<open>while\<close> loop of \<open>get_host_port_proto\<close>; neither path changes in its body\<close>
  "walk w homepath cfgfile =
     io_bind (isfile w cfgfile) (\<lambda>found.
       if found then io_return ()
       else
         io_bind (samefile w (dirname homepath) (dirname cfgfile)) (\<lambda>same.
           if same then io_return ()
           else
             io_bind (abspath w (normpath rcname)) (\<lambda>newcfgfile.
             io_bind (samefile w (dirname cfgfile) (dirname newcfgfile)) (\<lambda>same.
               if same then io_return ()
               else walk w homepath cfgfile))))"

declare walk.simps [code]

definition str_true :: "string option \<Rightarrow> bool" where
  \<comment> \<open>the truth value of a string or \<open>None\<close>\<close>
  "str_true x = (case x of None \<Rightarrow> False | Some s \<Rightarrow> s \<noteq> [])"

definition int_true :: "int option \<Rightarrow> bool" where
  \<comment> \<open>the truth value of an integer or \<open>None\<close>\<close>
  "int_true x = (case x of None \<Rightarrow> False | Some n \<Rightarrow> n \<noteq> 0)"

definition env_port :: "string option \<Rightarrow> int option io" where
  \<comment> \<open>\<open>if casport is not None: casport = int(casport)\<close>\<close>
  "env_port casport =
     (case casport of
        None \<Rightarrow> io_return None
      | Some s \<Rightarrow> (case int_of_str s of Inl e \<Rightarrow> io_raise e | Inr n \<Rightarrow> io_return (Some n)))"

definition get_host_port_proto :: "world \<Rightarrow> (string option \<times> int option \<times> string option) io" where
  "get_host_port_proto w =
     (let cashost = environ w ''CASHOST'';
          casport = environ w ''CASPORT'';
          casprotocol = environ w ''CASPROTOCOL''
      in
        io_bind (env_port casport) (\<lambda>casport.
        if str_true cashost \<and> int_true casport then io_return (cashost, casport, casprotocol)
        else
          io_bind (expanduser w (environ_get w ''HOME'' ''~'')) (\<lambda>home.
          let homepath = path_join home rcname;
              upath = path_join ''u:'' rcname
          in
            io_bind (abspath w (normpath rcname)) (\<lambda>cfgfile.
            io_bind (walk w homepath cfgfile) (\<lambda>u.
            io_bind (isfile w cfgfile) (\<lambda>in_cwd.
              if in_cwd then read_casrc w cfgfile
              else
                io_bind (exists_path w homepath) (\<lambda>in_home.
                  if in_home then read_casrc w homepath
                  else
                    io_bind (exists_path w upath) (\<lambda>in_u.
                      if in_u then read_casrc w upath
                      else io_return (cashost, casport, casprotocol)))))))))"

section \<open>Comparing tables and columns\<close>

text \<open>
  A cell is \<open>None\<close> where the value is missing (NaN). A data frame has its column labels
  and its rows; a series is a list of cells. A \<open>CASTable\<close> or \<open>CASColumn\<close> is the object
  with the method \<open>to_frame\<close> or \<open>to_series\<close>, which fetches its data.
\<close>

record 'a frame =
  columns :: "string list"
  records :: "'a option list list"

datatype 'a table = DataFrame "'a frame" | CASTable "'a frame"

datatype 'a col = Series "'a option list" | CASColumn "'a option list"

definition assertEqual :: "'a \<Rightarrow> 'a \<Rightarrow> unit io" where
  \<comment> \<open>\<open>self.assertEqual(a, b)\<close> raises the failure exception of the test case\<close>
  "assertEqual a b = (if a = b then io_return () else io_raise AssertionError)"

definition to_frame :: "'a table \<Rightarrow> 'a frame" where
  \<comment> \<open>\<open>if hasattr(a, 'to_frame'): a = a.to_frame()\<close>\<close>
  "to_frame a = (case a of DataFrame f \<Rightarrow> f | CASTable f \<Rightarrow> f)"

definition to_series :: "'a col \<Rightarrow> 'a option list" where
  \<comment> \<open>\<open>if hasattr(a, 'to_series'): a = a.to_series()\<close>\<close>
  "to_series a = (case a of Series xs \<Rightarrow> xs | CASColumn xs \<Rightarrow> xs)"

definition fill :: "'a \<Rightarrow> 'a option \<Rightarrow> 'a" where
  "fill v c = (case c of None \<Rightarrow> v | Some x \<Rightarrow> x)"

definition fillna :: "'a \<Rightarrow> 'a frame \<Rightarrow> 'a list list" where
  \<comment> \<open>\<open>a.fillna(value=fillna)\<close>, then the rows \<open>list(a.to_records(index=False))\<close>\<close>
  "fillna v f = map (map (fill v)) (records f)"

definition cell :: "'a option list \<Rightarrow> nat \<Rightarrow> 'a option" where
  "cell r i = (if i < length r then r ! i else None)"

fun index_of :: "string \<Rightarrow> string list \<Rightarrow> nat option" where
  "index_of c [] = None"
| "index_of c (x # xs) = (if x = c then Some 0 else map_option Suc (index_of c xs))"

definition sort_values :: "string \<Rightarrow> ('a::linorder) frame \<Rightarrow> 'a frame io" where
  \<comment> \<open>\<open>a.sort_values(label)\<close>: rows in ascending order of the column, rows without a
      value there last; an unknown label raises. Rows with equal values keep their order
      here; pandas leaves their order open.\<close>
  "sort_values label f =
     (case index_of label (columns f) of
        None \<Rightarrow> io_raise KeyError
      | Some i \<Rightarrow>
          io_return (f\<lparr>records :=
            map snd (sort_key fst
              (List.map_filter (\<lambda>r. map_option (\<lambda>v. (v, r)) (cell r i)) (records f)))
            @ filter (\<lambda>r. cell r i = None) (records f)\<rparr>))"

fun assert_rows :: "('a list \<times> 'a list) list \<Rightarrow> unit io" where
  \<comment> \<open>\<open>for lista, listb in zip(...): self.assertEqual(list(lista), list(listb))\<close>\<close>
  "assert_rows [] = io_return ()"
| "assert_rows ((lista, listb) # rest) = io_bind (assertEqual lista listb) (\<lambda>u. assert_rows rest)"

definition assertTablesEqual ::
  "('a::linorder) table \<Rightarrow> 'a table \<Rightarrow> 'a \<Rightarrow> string option \<Rightarrow> unit io" where
  "assertTablesEqual a b fillna_value sortby =
     (let a = to_frame a; b = to_frame b
      in io_bind (if str_true sortby
                  then io_bind (sort_values (fill [] sortby) a) (\<lambda>a.
                       io_bind (sort_values (fill [] sortby) b) (\<lambda>b. io_return (a, b)))
                  else io_return (a, b)) (\<lambda>(a, b).
         io_bind (assertEqual (columns a) (columns b)) (\<lambda>u.
         assert_rows (zip (fillna fillna_value a) (fillna fillna_value b)))))"

definition assertColsEqual :: "('a::linorder) col \<Rightarrow> 'a col \<Rightarrow> 'a \<Rightarrow> bool \<Rightarrow> unit io" where
  "assertColsEqual a b fillna_value sorted_flag =
     (let a = map (fill fillna_value) (to_series a);
          b = map (fill fillna_value) (to_series b)
      in if sorted_flag then assertEqual (sort a) (sort b) else assertEqual a b)"

section \<open>Observations and sample worlds\<close>

definition result :: "'a io \<Rightarrow> (error + 'a) option" where
  \<comment> \<open>what the caller gets: a value or an exception; \<open>None\<close> when the call never returns\<close>
  "result m = map_option snd m"

definition returns :: "'a io \<Rightarrow> bool" where
  \<comment> \<open>the call comes back, with a value or an exception\<close>
  "returns m = (case m of None \<Rightarrow> False | Some r \<Rightarrow> True)"

definition numeric :: "string \<Rightarrow> bool" where
  \<comment> \<open>the text denotes an integer, that is, \<open>int\<close> accepts it\<close>
  "numeric s = (case int_of_str s of Inl e \<Rightarrow> False | Inr n \<Rightarrow> True)"

definition first_candidate :: "world \<Rightarrow> string \<Rightarrow> string \<Rightarrow> string \<Rightarrow> string option" where
  \<comment> \<open>the search of the specification: the first candidate that exists, in the order
      working directory (a regular file), home directory, alternate path\<close>
  "first_candidate w cfgfile homepath upath =
     (if file_at w cfgfile then Some cfgfile
      else if present w homepath then Some homepath
      else if present w upath then Some upath
      else None)"

definition env_world :: "(string \<rightharpoonup> string) \<Rightarrow> world" where
  \<comment> \<open>a machine with the given environment, the working directory \<open>/w\<close>, the home
      \<open>/home/u\<close>, no \<open>.casrc\<close> anywhere and no Lua\<close>
  "env_world env =
     \<lparr>environ = env, getcwd = Some ''/w'', getpwuid = Some ''/home/u'', getpwnam = Map.empty,
      stat = [''/w'' \<mapsto> \<lparr>st_dev = 1, st_ino = 2, kind = Dir\<rparr>,
              ''/home/u'' \<mapsto> \<lparr>st_dev = 1, st_ino = 3, kind = Dir\<rparr>],
      lupa = None, lua_command = (\<lambda>p. None), python_eval = (\<lambda>s. Inl SyntaxError)\<rparr>"

definition with_file :: "string \<Rightarrow> string \<Rightarrow> world \<Rightarrow> world" where
  \<comment> \<open>the same machine with a regular file of the given text at the path\<close>
  "with_file p text w = w\<lparr>stat := (stat w)(p \<mapsto> \<lparr>st_dev = 1, st_ino = 9, kind = Reg text\<rparr>)\<rparr>"

definition sample_casrc :: string where
  \<comment> \<open>a \<open>.casrc\<close> of two assignments, one per line, without comments\<close>
  "sample_casrc = ''cashost = \"a.b.c\"'' @ [nl] @ ''casport = 5570'' @ [nl]"

section \<open>Laws of the effect type\<close>

lemmas io_defs = io_call_def io_return_def io_raise_def io_bind_def

lemma io_bind_return [simp]: "io_bind (io_return x) f = f x"
  by (simp add: io_bind_def io_return_def split: option.splits)

lemma io_bind_raise [simp]: "io_bind (io_raise e) f = io_raise e"
  by (simp add: io_bind_def io_raise_def)

lemma io_bind_Some_Inr:
  "io_bind (Some (t, Inr x)) f = (case f x of None \<Rightarrow> None | Some (t', r) \<Rightarrow> Some (t @ t', r))"
  by (simp add: io_bind_def)

lemma returns_bind:
  assumes "returns m" and "\<And>x. returns (f x)"
  shows "returns (io_bind m f)"
proof -
  obtain t r where m: "m = Some (t, r)"
    using assms(1) by (cases m) (auto simp: returns_def)
  show ?thesis
  proof (cases r)
    case (Inl e)
    with m show ?thesis by (simp add: io_bind_def returns_def)
  next
    case (Inr x)
    obtain t' r' where "f x = Some (t', r')"
      using assms(2) [of x] by (cases "f x") (auto simp: returns_def)
    with m Inr show ?thesis by (simp add: io_bind_def returns_def)
  qed
qed

lemma returns_bind_value:
  "m = Some (t, Inr x) \<Longrightarrow> returns (io_bind m f) = returns (f x)"
  by (simp add: io_bind_def returns_def split: option.splits)

lemma returns_primitives:
  "returns (io_return x)" "returns (io_raise e)" "returns (io_call c r)"
  "returns (isfile w p)" "returns (exists_path w p)" "returns (samefile w p q)"
  "returns (read_file w p)" "returns (abspath w p)" "returns (expanduser w p)"
  "returns (env_port s)" "returns (fatal msg)"
  by (simp_all add: returns_def io_defs isfile_def exists_path_def samefile_def read_file_def
        abspath_def expanduser_def env_port_def fatal_def Let_def split: option.splits sum.splits)

section \<open>The search loop\<close>

text \<open>
  The loop is left at once when the file is in the working directory. Otherwise its first
  \<open>samefile\<close> raises when one of the two directories cannot be examined; when both can,
  the loop ends in its first round, since the second \<open>samefile\<close> compares the directory
  of \<open>cfgfile\<close> with itself.
\<close>

lemma walk_found:
  "file_at w cfgfile \<Longrightarrow> walk w homepath cfgfile = Some ([IsFile cfgfile], Inr ())"
  by (subst walk.simps) (simp add: isfile_def io_defs)

lemma walk_not_found:
  assumes nf: "\<not> file_at w cfgfile"
    and cfg: "abspath w (normpath rcname) = Some (t, Inr cfgfile)"
    and home: "present w (dirname homepath)"
    and cwd: "present w (dirname cfgfile)"
  shows "\<exists>t'. walk w homepath cfgfile = Some (t', Inr ())"
proof -
  obtain a b where a: "stat w (dirname homepath) = Some a" and b: "stat w (dirname cfgfile) = Some b"
    using home cwd by (auto simp: present_def split: option.splits)
  show ?thesis
  proof (cases "st_ino a = st_ino b \<and> st_dev a = st_dev b")
    case True
    then show ?thesis
      using nf a b
      by (subst walk.simps) (simp add: isfile_def samefile_def io_defs)
  next
    case False
    then show ?thesis
      using nf a b cfg
      by (subst walk.simps) (auto simp: isfile_def samefile_def io_defs)
  qed
qed

lemma walk_missing_dir:
  assumes nf: "\<not> file_at w cfgfile"
    and missing: "\<not> present w (dirname homepath) \<or> \<not> present w (dirname cfgfile)"
  shows "walk w homepath cfgfile
           = Some ([IsFile cfgfile, SameFile (dirname homepath) (dirname cfgfile)], Inl OSError)"
  using nf missing
  by (subst walk.simps)
     (auto simp: isfile_def samefile_def present_def io_call_def io_bind_def split: option.splits)

lemma walk_returns:
  assumes cfg: "abspath w (normpath rcname) = Some (t, Inr cfgfile)"
  shows "returns (walk w homepath cfgfile)"
proof (cases "file_at w cfgfile")
  case True
  then show ?thesis by (simp add: walk_found returns_def)
next
  case nf: False
  show ?thesis
  proof (cases "present w (dirname homepath) \<and> present w (dirname cfgfile)")
    case True
    then obtain t' where "walk w homepath cfgfile = Some (t', Inr ())"
      using walk_not_found [OF nf cfg] by blast
    then show ?thesis by (simp add: returns_def)
  next
    case False
    then have "\<not> present w (dirname homepath) \<or> \<not> present w (dirname cfgfile)" by simp
    from walk_missing_dir [OF nf this] show ?thesis by (simp add: returns_def)
  qed
qed

section \<open>The reader returns, and does not look at the environment\<close>

lemma scrape_returns: "returns (scrape w p)"
  unfolding scrape_def Let_def
  by (intro returns_bind returns_primitives) (simp add: returns_primitives split: sum.splits)

lemma load_globals_returns: "returns (load_globals w p)"
proof (cases "lupa w")
  case None
  then show ?thesis
    unfolding load_globals_def
    by (simp, intro returns_bind returns_primitives)
       (simp add: returns_primitives scrape_returns split: option.splits sum.splits)
next
  case (Some dofile)
  then show ?thesis
    by (simp add: load_globals_def returns_primitives split: option.splits)
qed

lemma read_casrc_returns: "returns (read_casrc w p)"
  unfolding read_casrc_def Let_def
  by (intro returns_bind returns_primitives load_globals_returns)
     (simp_all add: returns_primitives load_globals_returns returns_bind split: sum.splits)

lemma search_returns:
  assumes "\<And>c. returns (k c)"
  shows "returns (io_bind (abspath w (normpath rcname)) (\<lambda>cfgfile.
                  io_bind (walk w homepath cfgfile) (\<lambda>u. k cfgfile)))"
proof -
  obtain t r where a: "abspath w (normpath rcname) = Some (t, r)"
    using returns_primitives(8) [of w "normpath rcname"]
    by (cases "abspath w (normpath rcname)") (auto simp: returns_def)
  show ?thesis
  proof (cases r)
    case (Inl e)
    with a show ?thesis by (simp add: io_bind_def returns_def)
  next
    case (Inr cfgfile)
    with a have cfg: "abspath w (normpath rcname) = Some (t, Inr cfgfile)" by simp
    have "returns (io_bind (walk w homepath cfgfile) (\<lambda>u. k cfgfile))"
      using walk_returns [OF cfg] assms by (intro returns_bind)
    then show ?thesis
      by (simp add: returns_bind_value [OF cfg])
  qed
qed

lemma get_host_port_proto_returns: "returns (get_host_port_proto w)"
  unfolding get_host_port_proto_def Let_def
  by (intro returns_bind returns_primitives)
     (auto intro!: returns_bind returns_primitives search_returns read_casrc_returns)






section \<open>Sample computations\<close>

lemma sample_ints:
  "int_of_str ''0'' = Inr 0"
  "int_of_str '' 5570 '' = Inr 5570"
  "int_of_str ''1234'' = Inr 1234"
  "int_of_str ''abc'' = Inl ValueError"
  by (simp_all add: int_of_str_def strip_def is_ascii_space_def is_digit_def ord_def)

lemma sample_paths:
  "normpath rcname = ''.casrc''"
  "normpath (path_join ''/w'' ''.casrc'') = ''/w/.casrc''"
  "dirname ''/w/.casrc'' = ''/w''"
  "dirname ''/home/u/.casrc'' = ''/home/u''"
  "path_join ''/home/u'' rcname = ''/home/u/.casrc''"
  "path_join ''u:'' rcname = ''u:/.casrc''"
  by (simp_all add: normpath_def rcname_def path_join_def dirname_def startswith_def endswith_def
        norm_comp_def rstrip_char_def)

lemma sample_expanduser:
  "environ w ''HOME'' = None \<Longrightarrow> getpwuid w = Some ''/home/u''
     \<Longrightarrow> expanduser w (environ_get w ''HOME'' ''~'') = Some ([GetPwUid], Inr ''/home/u'')"
  by (simp add: expanduser_def environ_get_def startswith_def rstrip_char_def io_defs)

lemma sample_abspath:
  "getcwd w = Some ''/w'' \<Longrightarrow> abspath w (normpath rcname) = Some ([GetCwd], Inr ''/w/.casrc'')"
  by (simp add: abspath_def sample_paths isabs_def startswith_def io_defs)

lemma sample_findall:
  "findall False assign_rx (re_sub True comment_rx '' '' sample_casrc)
     = [[''cashost'', ''\"a.b.c\"''], [''casport'', ''5570'']]"
  by code_simp

lemma sample_evals:
  "py_eval w ''\"a.b.c\"'' = Inr (PStr ''a.b.c'')"
  "py_eval w ''5570'' = Inr (PInt 5570)"
  by (simp_all add: py_eval_def all_digits_def quoted_def is_digit_def ord_def nl_def)

lemma sample_scrape:
  assumes "stat w path = Some n" and "kind n = Reg sample_casrc"
  shows "scrape w path
           = Some ([ReadFile path],
                   Inr (LuaGlobals [''cashost'' \<mapsto> PStr ''a.b.c'', ''casport'' \<mapsto> PInt 5570]))"
  using assms by (simp add: scrape_def read_file_def sample_findall sample_evals io_defs)

lemma sample_read:
  assumes "lupa w = None" and "lua_command w path = None"
    and "stat w path = Some n" and "kind n = Reg sample_casrc"
  shows "read_casrc w path
           = Some ([IsFile path, LuaCommand path, ReadFile path],
                   Inr (Some ''a.b.c'', Some 5570, None))"
  using assms
  by (simp add: read_casrc_def load_globals_def sample_scrape [OF assms(3,4)] isfile_def
        file_at_def is_reg_def getattr_def io_defs)

section \<open>Host and port from the environment\<close>

text \<open>
  C1, as stated: whenever the host and the port variable are both set, the port to a
  numeric text, \<open>get_host_port_proto\<close> returns these values and looks at no file. The
  function tests the truth of the two values, not their presence: with the port \<open>0\<close>
  (or with an empty host) it goes on to the search, and on the machine below, with a
  \<open>.casrc\<close> in the working directory, it examines and reads that file and returns the
  host and the port written there.
\<close>

theorem zero_port_counterexample:
  "environ (with_file ''/w/.casrc'' sample_casrc
             (env_world [''CASHOST'' \<mapsto> ''h'', ''CASPORT'' \<mapsto> ''0''])) ''CASHOST'' = Some ''h''
   \<and> environ (with_file ''/w/.casrc'' sample_casrc
               (env_world [''CASHOST'' \<mapsto> ''h'', ''CASPORT'' \<mapsto> ''0''])) ''CASPORT'' = Some ''0''
   \<and> int_of_str ''0'' = Inr 0
   \<and> get_host_port_proto
         (with_file ''/w/.casrc'' sample_casrc (env_world [''CASHOST'' \<mapsto> ''h'', ''CASPORT'' \<mapsto> ''0'']))
       = Some ([GetPwUid, GetCwd, IsFile ''/w/.casrc'', IsFile ''/w/.casrc'', IsFile ''/w/.casrc'',
                LuaCommand ''/w/.casrc'', ReadFile ''/w/.casrc''],
               Inr (Some ''a.b.c'', Some 5570, None))"
proof -
  let ?w = "with_file ''/w/.casrc'' sample_casrc (env_world [''CASHOST'' \<mapsto> ''h'', ''CASPORT'' \<mapsto> ''0''])"
  have home: "expanduser ?w (environ_get ?w ''HOME'' ''~'') = Some ([GetPwUid], Inr ''/home/u'')"
    by (rule sample_expanduser) (simp_all add: with_file_def env_world_def)
  have cfg: "abspath ?w (normpath rcname) = Some ([GetCwd], Inr ''/w/.casrc'')"
    by (rule sample_abspath) (simp add: with_file_def env_world_def)
  have isf: "file_at ?w ''/w/.casrc''"
    by (simp add: file_at_def with_file_def env_world_def is_reg_def)
  have read: "read_casrc ?w ''/w/.casrc''
           = Some ([IsFile ''/w/.casrc'', LuaCommand ''/w/.casrc'', ReadFile ''/w/.casrc''],
                   Inr (Some ''a.b.c'', Some 5570, None))"
    by (rule sample_read [where n = "\<lparr>st_dev = 1, st_ino = 9, kind = Reg sample_casrc\<rparr>"])
       (simp_all add: with_file_def env_world_def)
  have "get_host_port_proto ?w
       = Some ([GetPwUid, GetCwd, IsFile ''/w/.casrc'', IsFile ''/w/.casrc'', IsFile ''/w/.casrc'',
                LuaCommand ''/w/.casrc'', ReadFile ''/w/.casrc''],
               Inr (Some ''a.b.c'', Some 5570, None))"
    using home cfg isf read walk_found [OF isf, of "''/home/u/.casrc''"]
    by (simp add: get_host_port_proto_def env_port_def sample_ints sample_paths str_true_def
          int_true_def isfile_def io_defs with_file_def env_world_def)
  then show ?thesis
    by (simp add: sample_ints with_file_def env_world_def)
qed

text \<open>
  C1, amended: whenever the host variable is set to a non-empty text and the port variable
  to a numeric text whose value is not zero, \<open>get_host_port_proto\<close> returns exactly that
  host, that port as an integer and the value of the protocol variable (\<open>None\<close> when it is
  not set), and makes no library call: no file is examined or read, whatever the file
  system holds.
\<close>

theorem env_host_port:
  assumes "environ w ''CASHOST'' = Some h" and "h \<noteq> []"
    and "environ w ''CASPORT'' = Some s" and "int_of_str s = Inr n" and "n \<noteq> 0"
  shows "get_host_port_proto w = Some ([], Inr (Some h, Some n, environ w ''CASPROTOCOL''))"
  using assms
  by (simp add: get_host_port_proto_def env_port_def str_true_def int_true_def io_return_def
        io_bind_def)

theorem env_host_port_witness:
  "get_host_port_proto
     (with_file ''/w/.casrc'' sample_casrc
        (env_world [''CASHOST'' \<mapsto> ''h'', ''CASPORT'' \<mapsto> '' 5570 '', ''CASPROTOCOL'' \<mapsto> ''http'']))
     = Some ([], Inr (Some ''h'', Some 5570, Some ''http''))"
  using env_host_port [of "with_file ''/w/.casrc'' sample_casrc
        (env_world [''CASHOST'' \<mapsto> ''h'', ''CASPORT'' \<mapsto> '' 5570 '', ''CASPROTOCOL'' \<mapsto> ''http''])"
        "''h''" "'' 5570 ''" 5570]
  by (simp add: sample_ints with_file_def env_world_def)

section \<open>A port that is not a number\<close>


lemma int_digits_chars:
  "int_digits cs d acc = Some n \<Longrightarrow> list_all (\<lambda>c. is_digit c \<or> c = CHR ''_'') cs"
  by (induction cs d acc rule: int_digits.induct) (auto split: if_splits)

lemma dropWhile_chars: "c \<in> set s \<Longrightarrow> P c \<or> c \<in> set (dropWhile P s)"
  by (induction s) auto

lemma strip_chars: "c \<in> set s \<Longrightarrow> is_ascii_space c \<or> c \<in> set (strip s)"
proof -
  assume "c \<in> set s"
  then have "is_ascii_space c \<or> c \<in> set (rev (dropWhile is_ascii_space s))"
    using dropWhile_chars [of c s is_ascii_space] by simp
  then have "is_ascii_space c
             \<or> c \<in> set (dropWhile is_ascii_space (rev (dropWhile is_ascii_space s)))"
    using dropWhile_chars [of c "rev (dropWhile is_ascii_space s)" is_ascii_space] by blast
  then show ?thesis by (simp add: strip_def)
qed

text \<open>
  A numeric text holds nothing but digits, white space, underscores and signs: a text with
  any other character, a letter or a point, is not numeric.
\<close>

lemma numeric_chars:
  assumes "numeric s" and "c \<in> set s"
  shows "is_digit c \<or> is_ascii_space c \<or> c = CHR ''_'' \<or> c = CHR ''+'' \<or> c = CHR ''-''"
proof (cases "is_ascii_space c")
  case True
  then show ?thesis by simp
next
  case False
  then have c: "c \<in> set (strip s)" using strip_chars [OF assms(2)] by simp
  then obtain x xs where xs: "strip s = x # xs" by (cases "strip s") auto
  have "list_all (\<lambda>c. is_digit c \<or> c = CHR ''_'') xs
        \<or> list_all (\<lambda>c. is_digit c \<or> c = CHR ''_'') (x # xs)"
    using assms(1) xs
    by (auto simp: numeric_def int_of_str_def split: if_splits option.splits dest: int_digits_chars)
  moreover have "x = CHR ''+'' \<or> x = CHR ''-''
                 \<or> list_all (\<lambda>c. is_digit c \<or> c = CHR ''_'') (x # xs)"
    using assms(1) xs
    by (auto simp: numeric_def int_of_str_def split: if_splits option.splits dest: int_digits_chars)
  ultimately show ?thesis
    using c xs by (auto simp: list_all_iff)
qed



section \<open>The search finds a file\<close>




section \<open>The search finds nothing\<close>

text \<open>
  C3, as stated: whenever host and port are not both set and none of the three candidates
  exists, \<open>get_host_port_proto\<close> returns the values of the environment. It does not on
  the two machines below, neither of which has a candidate. On the first the port variable
  is \<open>abc\<close>, and the conversion of the first step raises. On the second the variable
  \<open>HOME\<close> names a directory that does not exist, and the first \<open>samefile\<close> of the search
  loop raises.
\<close>

theorem no_candidate_counterexample:
  "environ (env_world [''CASPORT'' \<mapsto> ''abc'']) ''CASHOST'' = None
   \<and> first_candidate (env_world [''CASPORT'' \<mapsto> ''abc''])
         ''/w/.casrc'' ''/home/u/.casrc'' ''u:/.casrc'' = None
   \<and> get_host_port_proto (env_world [''CASPORT'' \<mapsto> ''abc'']) = Some ([], Inl ValueError)
   \<and> environ (env_world [''HOME'' \<mapsto> ''/nonexistent'']) ''CASHOST'' = None
   \<and> environ (env_world [''HOME'' \<mapsto> ''/nonexistent'']) ''CASPORT'' = None
   \<and> first_candidate (env_world [''HOME'' \<mapsto> ''/nonexistent''])
         ''/w/.casrc'' ''/nonexistent/.casrc'' ''u:/.casrc'' = None
   \<and> get_host_port_proto (env_world [''HOME'' \<mapsto> ''/nonexistent''])
       = Some ([GetCwd, IsFile ''/w/.casrc'', SameFile ''/nonexistent'' ''/w''], Inl OSError)"
proof -
  let ?w = "env_world [''HOME'' \<mapsto> ''/nonexistent'']"
  have home: "expanduser ?w (environ_get ?w ''HOME'' ''~'') = Some ([], Inr ''/nonexistent'')"
    by (simp add: expanduser_def environ_get_def startswith_def env_world_def io_defs)
  have cfg: "abspath ?w (normpath rcname) = Some ([GetCwd], Inr ''/w/.casrc'')"
    by (rule sample_abspath) (simp add: env_world_def)
  have hp: "path_join ''/nonexistent'' rcname = ''/nonexistent/.casrc''"
    "dirname ''/nonexistent/.casrc'' = ''/nonexistent''"
    by (simp_all add: rcname_def path_join_def dirname_def startswith_def endswith_def rstrip_char_def)
  have nf: "\<not> file_at ?w ''/w/.casrc''"
    by (simp add: file_at_def env_world_def)
  have nd: "\<not> present ?w (dirname ''/nonexistent/.casrc'') \<or> \<not> present ?w (dirname ''/w/.casrc'')"
    by (simp add: hp present_def env_world_def)
  have "get_host_port_proto ?w
          = Some ([GetCwd, IsFile ''/w/.casrc'', SameFile ''/nonexistent'' ''/w''], Inl OSError)"
    using home cfg walk_missing_dir [OF nf nd]
    by (simp add: get_host_port_proto_def env_port_def str_true_def int_true_def hp sample_paths
          io_defs env_world_def)
  moreover have "get_host_port_proto (env_world [''CASPORT'' \<mapsto> ''abc'']) = Some ([], Inl ValueError)"
    by (simp add: get_host_port_proto_def env_port_def sample_ints io_defs env_world_def)
  ultimately show ?thesis
    by (simp add: first_candidate_def file_at_def present_def env_world_def)
qed

text \<open>
  C3, amended: when the port variable is unset or numeric, the environment does not supply
  both a non-empty host and a non-zero port, the directory of the home candidate and the
  working directory exist, and none of the three candidates exists,
  \<open>get_host_port_proto\<close> returns, and what it returns is the host variable, the port as
  an integer and the protocol variable, each \<open>None\<close> when not set.
\<close>

theorem no_candidate_returns_env:
  assumes port: "env_port (environ w ''CASPORT'') = io_return casport"
    and notboth: "\<not> (str_true (environ w ''CASHOST'') \<and> int_true casport)"
    and home: "expanduser w (environ_get w ''HOME'' ''~'') = Some (t1, Inr home)"
    and cfg: "abspath w (normpath rcname) = Some (t2, Inr cfgfile)"
    and dirs: "present w (dirname (path_join home rcname))" "present w (dirname cfgfile)"
    and none: "first_candidate w cfgfile (path_join home rcname) (path_join ''u:'' rcname) = None"
  shows "result (get_host_port_proto w)
           = Some (Inr (environ w ''CASHOST'', casport, environ w ''CASPROTOCOL''))"
proof -
  have nf: "\<not> file_at w cfgfile" and nh: "\<not> present w (path_join home rcname)"
    and nu: "\<not> present w (path_join ''u:'' rcname)"
    using none by (auto simp: first_candidate_def split: if_splits)
  obtain t3 where walk: "walk w (path_join home rcname) cfgfile = Some (t3, Inr ())"
    using walk_not_found [OF nf cfg dirs] by blast
  show ?thesis
    using port notboth home cfg walk nf nh nu
    by (simp add: get_host_port_proto_def Let_def result_def isfile_def exists_path_def io_defs)
qed

theorem no_candidate_returns_env_witness:
  "result (get_host_port_proto (env_world [''CASHOST'' \<mapsto> ''h'', ''CASPROTOCOL'' \<mapsto> ''http'']))
     = Some (Inr (Some ''h'', None, Some ''http''))"
proof -
  let ?w = "env_world [''CASHOST'' \<mapsto> ''h'', ''CASPROTOCOL'' \<mapsto> ''http'']"
  have port: "env_port (environ ?w ''CASPORT'') = io_return None"
    by (simp add: env_port_def env_world_def)
  have notboth: "\<not> (str_true (environ ?w ''CASHOST'') \<and> int_true None)"
    by (simp add: int_true_def)
  have home: "expanduser ?w (environ_get ?w ''HOME'' ''~'') = Some ([GetPwUid], Inr ''/home/u'')"
    by (rule sample_expanduser) (simp_all add: env_world_def)
  have cfg: "abspath ?w (normpath rcname) = Some ([GetCwd], Inr ''/w/.casrc'')"
    by (rule sample_abspath) (simp add: env_world_def)
  have d1: "present ?w (dirname (path_join ''/home/u'' rcname))"
    by (simp add: sample_paths present_def env_world_def)
  have d2: "present ?w (dirname ''/w/.casrc'')"
    by (simp add: sample_paths present_def env_world_def)
  have none: "first_candidate ?w ''/w/.casrc'' (path_join ''/home/u'' rcname) (path_join ''u:'' rcname)
                = None"
    by (simp add: sample_paths first_candidate_def file_at_def present_def env_world_def)
  show ?thesis
    using no_candidate_returns_env [OF port notboth home cfg d1 d2 none]
    by (simp add: env_world_def)
qed

section \<open>Mandatory fields of the file\<close>

text \<open>
  Where \<open>lg\<close> is an instance of \<open>LuaGlobals\<close> (the \<open>lua\<close> command or the manual scrape
  filled it), a missing host or port ends the call with an exception: the \<open>NameError\<close> of
  the handler, which names the module \<open>sys\<close> that was never imported. Where \<open>lg\<close> is the
  table of the embedded runtime, a missing port ends the call in the same way, since
  \<open>int(None)\<close> raises; a missing host does not, since \<open>str(None)\<close> is the text \<open>None\<close>.
\<close>

lemma missing_field_raises:
  assumes "file_at w path" and "load_globals w path = Some (t, Inr (LuaGlobals d))"
    and "d ''cashost'' = None \<or> d ''casport'' = None"
  shows "read_casrc w path = Some (IsFile path # t, Inl NameError)"
  using assms
  by (auto simp: read_casrc_def isfile_def getattr_def fatal_def io_defs
        split: option.splits sum.splits)

lemma lua_table_missing_port_raises:
  assumes "file_at w path" and "load_globals w path = Some (t, Inr (LuaTable d))"
    and "d ''casport'' = None"
  shows "read_casrc w path = Some (IsFile path # t, Inl NameError)"
  using assms
  by (auto simp: read_casrc_def isfile_def getattr_def fatal_def io_defs
        split: option.splits sum.splits)

lemma lua_table_missing_host_passes:
  assumes "file_at w path" and "load_globals w path = Some (t, Inr (LuaTable d))"
    and "d ''cashost'' = None" and "d ''casport'' = Some (PInt n)"
  shows "\<exists>proto. read_casrc w path = Some (IsFile path # t, Inr (Some ''None'', Some n, proto))"
  using assms
  by (auto simp: read_casrc_def isfile_def getattr_def fatal_def io_defs
        split: option.splits sum.splits)

text \<open>
  C4: a file from which no host or no port is obtained must end \<open>_read_casrc\<close> with a
  fatal error, not with a partial result. On a machine with the embedded Lua runtime and a
  \<open>.casrc\<close> that assigns the port only, \<open>_read_casrc\<close> returns a tuple: its host is the
  text \<open>None\<close>.
\<close>

theorem lupa_missing_host:
  "read_casrc
     ((with_file ''/w/.casrc'' ''casport = 5570'' (env_world Map.empty))
        \<lparr>lupa := Some (\<lambda>p. Some [''casport'' \<mapsto> PInt 5570])\<rparr>) ''/w/.casrc''
     = Some ([IsFile ''/w/.casrc'', LuaDoFile ''/w/.casrc''], Inr (Some ''None'', Some 5570, None))"
  by (simp add: read_casrc_def load_globals_def getattr_def isfile_def file_at_def is_reg_def
        with_file_def env_world_def io_defs)

section \<open>The manual scrape\<close>

text \<open>
  C5: on a machine without the embedded runtime and without output from the \<open>lua\<close>
  command, so that the file is parsed by the manual scrape, a file whose text is the two
  assignments \<open>cashost = "a.b.c"\<close> and \<open>casport = 5570\<close>, one per line and without
  comments, yields the host \<open>a.b.c\<close>, the port \<open>5570\<close> and no protocol. (The keys of the
  file carry the prefix \<open>cas\<close>; the specification writes them \<open>host\<close> and \<open>port\<close>.)
\<close>

theorem scrape_roundtrip:
  assumes "lupa w = None"
    and "map_option strip (lua_command w path) = None \<or> map_option strip (lua_command w path) = Some []"
    and "stat w path = Some n" and "kind n = Reg sample_casrc"
  shows "read_casrc w path
           = Some ([IsFile path, LuaCommand path, ReadFile path],
                   Inr (Some ''a.b.c'', Some 5570, None))"
proof -
  have "load_globals w path
          = Some ([LuaCommand path, ReadFile path],
                  Inr (LuaGlobals [''cashost'' \<mapsto> PStr ''a.b.c'', ''casport'' \<mapsto> PInt 5570]))"
    using assms(1,2) sample_scrape [OF assms(3,4)]
    by (auto simp: load_globals_def io_defs split: option.splits)
  then show ?thesis
    using assms(3,4)
    by (simp add: read_casrc_def isfile_def file_at_def is_reg_def getattr_def io_defs)
qed

theorem scrape_roundtrip_witness:
  "read_casrc (with_file ''/w/.casrc'' sample_casrc (env_world Map.empty)) ''/w/.casrc''
     = Some ([IsFile ''/w/.casrc'', LuaCommand ''/w/.casrc'', ReadFile ''/w/.casrc''],
             Inr (Some ''a.b.c'', Some 5570, None))"
  using scrape_roundtrip [of "with_file ''/w/.casrc'' sample_casrc (env_world Map.empty)" "''/w/.casrc''"
      "\<lparr>st_dev = 1, st_ino = 9, kind = Reg sample_casrc\<rparr>"]
  by (simp add: with_file_def env_world_def)

section \<open>Comparing tables\<close>

lemma assert_rows_outcome:
  "assert_rows ps
     = (if list_all (\<lambda>(a, b). a = b) ps then io_return () else io_raise AssertionError)"
  by (induction ps rule: assert_rows.induct) (simp_all add: assertEqual_def)

lemma assert_rows_passes: "assert_rows ps = io_return () \<longleftrightarrow> list_all (\<lambda>(a, b). a = b) ps"
  by (simp add: assert_rows_outcome io_return_def io_raise_def)

text \<open>
  Without a sort key, two data frames with the same number of rows pass exactly when their
  column lists are equal and their rows are equal after the missing values are filled.
\<close>

lemma tables_same_length:
  assumes "length (records a) = length (records b)"
  shows "assertTablesEqual (DataFrame a) (DataFrame b) v None = io_return ()
           \<longleftrightarrow> columns a = columns b \<and> fillna v a = fillna v b"
proof -
  have len: "length (fillna v a) = length (fillna v b)"
    using assms by (simp add: fillna_def)
  have "list_all (\<lambda>(x, y). x = y) (zip xs ys) \<longleftrightarrow> xs = ys" if "length xs = length ys"
    for xs ys :: "'a list list"
    using that by (induction xs ys rule: list_induct2) auto
  then have "assert_rows (zip (fillna v a) (fillna v b)) = io_return ()
               \<longleftrightarrow> fillna v a = fillna v b"
    using len by (simp add: assert_rows_passes)
  then show ?thesis
    by (simp add: assertTablesEqual_def to_frame_def str_true_def assertEqual_def)
       (simp add: io_return_def io_raise_def)
qed

text \<open>
  C6: \<open>assertTablesEqual\<close> must raise the failure exception whenever the two tables differ,
  in their column lists, in their number of rows or in a cell. The rows are compared over
  \<open>zip\<close>, which stops at the end of the shorter table: a table of one row and a table
  that continues it with a second row pass the comparison.
\<close>

theorem tables_row_count:
  "assertTablesEqual
     (DataFrame \<lparr>columns = [''x''], records = [[Some 1]]\<rparr>)
     (DataFrame \<lparr>columns = [''x''], records = [[Some 1], [Some 2]]\<rparr>)
     (-999999::int) None
     = io_return ()"
  by (simp add: assertTablesEqual_def to_frame_def str_true_def fillna_def fill_def assertEqual_def)

section \<open>Comparing columns\<close>

text \<open>
  C9: \<open>assertColsEqual\<close> with \<open>sort=True\<close> passes on the columns \<open>[3, 1, 2]\<close> and
  \<open>[1, 2, 3]\<close>; with \<open>sort=False\<close> it raises the failure exception on them; and with
  \<open>sort=True\<close> its outcome does not change when the elements of either column are
  reordered.
\<close>

theorem assertColsEqual_sort:
  "assertColsEqual (Series [Some 3, Some 1, Some 2]) (Series [Some 1, Some 2, Some (3::int)]) v True
     = io_return ()
   \<and> assertColsEqual (Series [Some 3, Some 1, Some 2]) (Series [Some 1, Some 2, Some (3::int)]) v False
     = io_raise AssertionError
   \<and> (\<forall>a b a' b'.
         mset (to_series a) = mset (to_series a') \<and> mset (to_series b) = mset (to_series b')
         \<longrightarrow> assertColsEqual a b (fillna_value::int) True = assertColsEqual a' b' fillna_value True)"
proof (intro conjI allI impI)
  show "assertColsEqual (Series [Some 3, Some 1, Some 2]) (Series [Some 1, Some 2, Some (3::int)]) v True
          = io_return ()"
    by (simp add: assertColsEqual_def to_series_def fill_def assertEqual_def)
  show "assertColsEqual (Series [Some 3, Some 1, Some 2]) (Series [Some 1, Some 2, Some (3::int)]) v False
          = io_raise AssertionError"
    by (simp add: assertColsEqual_def to_series_def fill_def assertEqual_def)
next
  fix a b a' b' :: "int col"
  assume h: "mset (to_series a) = mset (to_series a') \<and> mset (to_series b) = mset (to_series b')"
  have "mset (map (fill fillna_value) (to_series a)) = mset (map (fill fillna_value) (to_series a'))"
    using h by (metis mset_map)
  then have sa: "sort (map (fill fillna_value) (to_series a))
                   = sort (map (fill fillna_value) (to_series a'))"
    by (intro properties_for_sort) simp_all
  have "mset (map (fill fillna_value) (to_series b)) = mset (map (fill fillna_value) (to_series b'))"
    using h by (metis mset_map)
  then have sb: "sort (map (fill fillna_value) (to_series b))
                   = sort (map (fill fillna_value) (to_series b'))"
    by (intro properties_for_sort) simp_all
  show "assertColsEqual a b fillna_value True = assertColsEqual a' b' fillna_value True"
    by (simp add: assertColsEqual_def sa sb)
qed

theorem assertColsEqual_sort_witness:
  "mset (to_series (Series [Some 2, None, Some (1::int)])) = mset (to_series (CASColumn [None, Some 1, Some 2]))
   \<and> assertColsEqual (Series [Some 2, None, Some 1]) (Series [Some 7, Some 5]) (-999999::int) True
     = assertColsEqual (CASColumn [None, Some 1, Some 2]) (Series [Some 5, Some 7]) (-999999::int) True
   \<and> assertColsEqual (CASColumn [None, Some 1, Some 2]) (Series [Some 5, Some 7]) (-999999::int) True
     = io_raise AssertionError"
proof -
  have ha: "mset (to_series (Series [Some 2, None, Some (1::int)]))
              = mset (to_series (CASColumn [None, Some 1, Some 2]))"
    by (simp add: to_series_def)
  have hb: "mset (to_series (Series [Some 7, Some (5::int)])) = mset (to_series (Series [Some 5, Some 7]))"
    by (simp add: to_series_def)
  have "assertColsEqual (Series [Some 2, None, Some 1]) (Series [Some 7, Some 5]) (-999999::int) True
          = assertColsEqual (CASColumn [None, Some 1, Some 2]) (Series [Some 5, Some 7])
              (-999999::int) True"
    using assertColsEqual_sort [of 0 "-999999"] ha hb by blast
  moreover have "assertColsEqual (CASColumn [None, Some 1, Some 2]) (Series [Some 5, Some 7])
                   (-999999::int) True = io_raise AssertionError"
    by (simp add: assertColsEqual_def to_series_def fill_def assertEqual_def)
  ultimately show ?thesis using ha by simp
qed

section \<open>Library names\<close>

text \<open>
  C7, as stated: for every server-type string containing \<open>mpp\<close>, with the base variable and
  the MPP variable both set, \<open>get_casout_lib\<close> and \<open>get_cas_data_lib\<close> return the value of
  the MPP variable. The functions test for the text \<open>.mpp\<close>, with the point: the server
  type \<open>mpp\<close> contains \<open>mpp\<close>, and \<open>get_casout_lib\<close> returns the base value for it.
\<close>

theorem mpp_without_point_counterexample:
  "str_in ''mpp'' ''mpp''
   \<and> environ (env_world [''CASOUTLIB'' \<mapsto> ''BASE'', ''CASMPPOUTLIB'' \<mapsto> ''OVER'']) ''CASOUTLIB''
       = Some ''BASE''
   \<and> environ (env_world [''CASOUTLIB'' \<mapsto> ''BASE'', ''CASMPPOUTLIB'' \<mapsto> ''OVER'']) ''CASMPPOUTLIB''
       = Some ''OVER''
   \<and> get_casout_lib (env_world [''CASOUTLIB'' \<mapsto> ''BASE'', ''CASMPPOUTLIB'' \<mapsto> ''OVER'']) ''mpp''
       = ''BASE''"
  by (simp add: get_casout_lib_def env_world_def environ_get_def startswith_def)

text \<open>
  C7, amended: for every server-type string containing \<open>.mpp\<close>, when the base variable and
  the MPP variable of a library are both set, \<open>get_casout_lib\<close> returns the value of
  \<open>CASMPPOUTLIB\<close> and \<open>get_cas_data_lib\<close> the value of \<open>CASMPPDATALIB\<close>.
\<close>

theorem mpp_override:
  assumes "str_in ''.mpp'' server_type"
  shows "(environ w ''CASOUTLIB'' = Some base \<and> environ w ''CASMPPOUTLIB'' = Some over
            \<longrightarrow> get_casout_lib w server_type = over)
       \<and> (environ w ''CASDATALIB'' = Some base' \<and> environ w ''CASMPPDATALIB'' = Some over'
            \<longrightarrow> get_cas_data_lib w server_type = over')"
  using assms by (simp add: get_casout_lib_def get_cas_data_lib_def environ_get_def)

theorem mpp_override_witness:
  "str_in ''.mpp'' ''linux.mpp.nohdfs''
   \<and> get_casout_lib
         (env_world [''CASOUTLIB'' \<mapsto> ''BASE'', ''CASMPPOUTLIB'' \<mapsto> ''OVER'',
                     ''CASDATALIB'' \<mapsto> ''DATA'', ''CASMPPDATALIB'' \<mapsto> ''MPPDATA''])
         ''linux.mpp.nohdfs'' = ''OVER''
   \<and> get_cas_data_lib
         (env_world [''CASOUTLIB'' \<mapsto> ''BASE'', ''CASMPPOUTLIB'' \<mapsto> ''OVER'',
                     ''CASDATALIB'' \<mapsto> ''DATA'', ''CASMPPDATALIB'' \<mapsto> ''MPPDATA''])
         ''linux.mpp.nohdfs'' = ''MPPDATA''"
proof -
  have h: "str_in ''.mpp'' ''linux.mpp.nohdfs''"
    by (simp add: startswith_def)
  show ?thesis
    using h mpp_override [OF h,
        of "env_world [''CASOUTLIB'' \<mapsto> ''BASE'', ''CASMPPOUTLIB'' \<mapsto> ''OVER'',
                       ''CASDATALIB'' \<mapsto> ''DATA'', ''CASMPPDATALIB'' \<mapsto> ''MPPDATA'']"
           "''BASE''" "''OVER''" "''DATA''" "''MPPDATA''"]
    by (simp add: env_world_def)
qed

section \<open>Credentials\<close>

text \<open>
  C10: in every world \<open>get_user_pass\<close> returns the pair of the values of \<open>CASUSER\<close> and
  \<open>CASPASSWORD\<close>, each \<open>None\<close> when the variable is not set, and makes no library call:
  it reads no file, \<open>~/.authinfo\<close> included, whatever its docstring says.
\<close>

theorem get_user_pass_env:
  "get_user_pass w = Some ([], Inr (environ w ''CASUSER'', environ w ''CASPASSWORD''))"
  by (auto simp: get_user_pass_def environ_item_def io_return_def io_bind_Some_Inr dom_def
        split: option.splits)

theorem get_user_pass_env_witness:
  "get_user_pass (env_world [''CASUSER'' \<mapsto> ''alice'']) = Some ([], Inr (Some ''alice'', None))"
  using get_user_pass_env [of "env_world [''CASUSER'' \<mapsto> ''alice'']"]
  by (simp add: env_world_def)

end
